theory Spec2Isabelle
  imports Main "HOL-Library.Monad_Syntax"
begin

section \<open>The RVE job scheduler (drivers/video/rockchip/rve/rve\_job.c)\<close>

text \<open>
  The development embeds the job scheduling engine of the Rockchip RVE driver. The driver
  state is an explicit store: job pages and contexts are kept in partial maps from
  addresses to records, the pending list \<open>todo_list\<close> is a list of job addresses and the
  running slot \<open>running_job\<close> is an optional job address. A function that dereferences a
  NULL or freed pointer returns \<open>None\<close>. Results of collaborators that are not part of
  rve\_job.c (page allocator, clocks, register programming, fences, user copies, the wait
  primitive) are explicit arguments. Debug printing, the debug\_info timing fields, the
  busy\_time bookkeeping and the register dump of \<open>rve_job_done\<close> are left out: no
  branch of the scheduler reads them.

  The \<open>int\<close> fields of the C structures (priorities, counts, return values) are
  mathematical integers here: the increments \<open>job_pos->priority++\<close> and
  \<open>++ctx->finished_job_count\<close> are modelled without the wrap-around of a 32-bit \<open>int\<close>,
  which takes \<open>2^31\<close> increments to reach. Statements that depend on an increment say
  where the values have to stay within that range.
\<close>

subsection \<open>Constants of the missing headers\<close>

text \<open>
  rve\_drv.h is not among the sources. Its numeric constants are passed to every function
  that uses them; the two build options that rve\_job.c tests are passed with them.
  The power-domain code is modelled as built (\<open>RVE_PD_AWAYS_ON\<close> undefined), which is the
  configuration under which rve\_drv.c defines \<open>rve_power_enable\<close>.
\<close>

record rve_consts =
  RVE_SCHED_PRIORITY_MAX :: int
  RVE_SCHED_PRIORITY_DEFAULT :: int
  RVE_ASYNC_TIMEOUT_DELAY :: int
  CONFIG_SYNC_FILE :: bool

text \<open>The errno values of the kernel (include/uapi/asm-generic/errno-base.h, linux/errno.h).\<close>

definition ENOMEM :: int where "ENOMEM = 12"
definition EFAULT :: int where "EFAULT = 14"
definition EBUSY :: int where "EBUSY = 16"
definition ERESTARTSYS :: int where "ERESTARTSYS = 512"

subsection \<open>Data model\<close>

text \<open>
  Modelled from the spec: the values of \<open>RVE_SYNC\<close>, \<open>RVE_ASYNC\<close> and \<open>RVE_JOB_DONE\<close> are
  defined in headers that are missing; the spec describes a synchronization mode
  (blocking vs. non-blocking) and a job flag set (asynchronous vs. synchronous, "done").
  The mode is a two-valued datatype and \<open>job->flags\<close> is a set of flag names, so
  \<open>flags |= F\<close> is \<open>insert F\<close> and \<open>flags & F\<close> is membership.
\<close>

datatype sync_mode = RVE_SYNC | RVE_ASYNC

datatype job_flag = FLAG_RVE_ASYNC | FLAG_RVE_JOB_DONE

record rve_job =
  job_ctx :: nat
  job_priority :: int
  job_flags :: "job_flag set"
  job_ret :: int
  job_timestamp :: int
  job_hw_running_time :: int
  job_regcmd_data :: nat
  job_out_fence :: "nat option"

record rve_internal_ctx_t =
  ctx_priority :: int
  ctx_sync_mode :: sync_mode
  cmd_num :: int
  finished_job_count :: int
  running_job_count :: int
  is_running :: bool
  ctx_regcmd_data :: nat
  out_fence :: "nat option"
  out_fence_fd :: int
  in_fence_fd :: int
  ctx_pid :: nat

text \<open>
  \<open>jobs\<close> holds the live job pages and \<open>ctxs\<close> the contexts of the idr, keyed by
  their id (a context's address is identified with its id). The remaining fields are
  those of the single \<open>rve_scheduler_t\<close> of \<open>rve_drvdata->scheduler[0]\<close>, followed by
  counters and logs that record the calls made to collaborators: the core resets, the
  fences signalled, the wake-ups of \<open>job_done_wq\<close>, the fence callbacks registered, the
  sizes of the copies from and to user space, the pages that \<open>get_zeroed_page\<close> handed
  out to \<open>rve_job_alloc\<close> and the jobs that \<open>ops->set_reg\<close> was called for.
\<close>

record rve_state =
  jobs :: "nat \<rightharpoonup> rve_job"
  ctxs :: "nat \<rightharpoonup> rve_internal_ctx_t"
  ctx_count :: int
  todo_list :: "nat list"
  job_count :: int
  running_job :: "nat option"
  total_int_cnt :: int
  pd_refcount :: int
  soft_reset_cnt :: nat
  signaled_fences :: "nat list"
  job_done_wq_wakeups :: nat
  fence_waiters :: "(nat \<times> nat) list"
  copied_from_user :: "int list"
  copied_to_user :: "int list"
  allocated_pages :: "nat list"
  set_reg_calls :: "nat list"

subsection \<open>Job pages\<close>

definition rve_job_free :: "nat \<Rightarrow> rve_state \<Rightarrow> rve_state" where
  "rve_job_free j s = s\<lparr>jobs := (jobs s)(j := None)\<rparr>"

definition rve_job_cleanup :: "nat \<Rightarrow> rve_state \<Rightarrow> rve_state" where
  "rve_job_cleanup j s = rve_job_free j s"

text \<open>
  \<open>rve_job_alloc\<close>: \<open>page\<close> is what \<open>get_zeroed_page\<close> returns. The page is zeroed, so a
  context priority that is not positive leaves the job priority at 0.
\<close>

definition rve_job_alloc ::
  "rve_consts \<Rightarrow> int \<Rightarrow> nat option \<Rightarrow> nat \<Rightarrow> rve_state \<Rightarrow> (nat option \<times> rve_state) option" where
  "rve_job_alloc k now page c s =
     (case page of
        None \<Rightarrow> Some (None, s)
      | Some j \<Rightarrow>
          (case ctxs s c of
             None \<Rightarrow> None
           | Some cx \<Rightarrow>
               Some (Some j,
                 s\<lparr>allocated_pages := allocated_pages s @ [j],
                   jobs := (jobs s)(j \<mapsto>
                   \<lparr>job_ctx = c,
                    job_priority =
                      (if ctx_priority cx > 0
                       then (if ctx_priority cx > RVE_SCHED_PRIORITY_MAX k
                             then RVE_SCHED_PRIORITY_MAX k else ctx_priority cx)
                       else 0),
                    job_flags = {},
                    job_ret = 0,
                    job_timestamp = now,
                    job_hw_running_time = 0,
                    job_regcmd_data = ctx_regcmd_data cx + nat (running_job_count cx),
                    job_out_fence = None\<rparr>)\<rparr>)))"

subsection \<open>Signalling a context\<close>

text \<open>
  \<open>rve_internal_ctx_signal\<close>. The scheduler of a job is never NULL in this model, and
  neither is \<open>job->ctx\<close>: \<open>rve_job_alloc\<close> stores the context it was called with and
  nothing assigns the field afterwards, so the test \<open>IS_ERR_OR_NULL (ctx)\<close> never fires
  and its \<open>-EINVAL\<close> branch is left out. A job or context that has been freed is a
  dangling pointer, which that test does not detect: dereferencing it is a fault.
\<close>

definition rve_internal_ctx_signal :: "rve_consts \<Rightarrow> nat \<Rightarrow> rve_state \<Rightarrow> rve_state option" where
  "rve_internal_ctx_signal k j s =
     (case jobs s j of
        None \<Rightarrow> None
      | Some job \<Rightarrow>
          (case ctxs s (job_ctx job) of
             None \<Rightarrow> None
           | Some cx0 \<Rightarrow>
               let c = job_ctx job;
                   cx = cx0\<lparr>ctx_regcmd_data := job_regcmd_data job,
                            finished_job_count := finished_job_count cx0 + 1\<rparr>;
                   finished = finished_job_count cx
               in if finished \<ge> cmd_num cx then
                    let s1 = (case out_fence cx of
                                Some f \<Rightarrow> if CONFIG_SYNC_FILE k
                                          then s\<lparr>signaled_fences := signaled_fences s @ [f]\<rparr>
                                          else s
                              | None \<Rightarrow> s);
                        job1 = job\<lparr>job_flags := insert FLAG_RVE_JOB_DONE (job_flags job)\<rparr>;
                        s2 = s1\<lparr>jobs := (jobs s1)(j \<mapsto> job1)\<rparr>;
                        s3 = (if FLAG_RVE_ASYNC \<in> job_flags job1 then rve_job_cleanup j s2 else s2);
                        s4 = s3\<lparr>job_done_wq_wakeups := job_done_wq_wakeups s3 + 1\<rparr>
                    in Some (s4\<lparr>ctxs := (ctxs s4)(c \<mapsto> cx\<lparr>is_running := False, out_fence := None\<rparr>)\<rparr>)
                  else Some (s\<lparr>ctxs := (ctxs s)(c \<mapsto> cx)\<rparr>)))"

subsection \<open>Starting a job on the hardware\<close>

text \<open>
  The clock framework and the register operations \<open>init_reg\<close> and \<open>set_reg\<close> are
  collaborators: \<open>hw j\<close> gives the values they return for the job at address \<open>j\<close>.
  \<open>set_reg\<close> is the call that starts the core; every call of it is logged.
\<close>

record hw_rets =
  clk_ret :: int
  init_reg_ret :: int
  set_reg_ret :: int

definition rve_power_enable :: "int \<Rightarrow> rve_state \<Rightarrow> int \<times> rve_state" where
  "rve_power_enable r s =
     (if r < 0 then (r, s\<lparr>pd_refcount := pd_refcount s + 1\<rparr>) else (0, s))"

definition rve_power_disable :: "rve_state \<Rightarrow> rve_state" where
  "rve_power_disable s = s\<lparr>pd_refcount := pd_refcount s - 1\<rparr>"

definition rve_job_run :: "(nat \<Rightarrow> hw_rets) \<Rightarrow> nat \<Rightarrow> rve_state \<Rightarrow> int \<times> rve_state" where
  "rve_job_run hw j s =
     (case rve_power_enable (clk_ret (hw j)) s of
        (r0, s0) \<Rightarrow>
          if r0 < 0 then (r0, s0)
          else if init_reg_ret (hw j) < 0 then (init_reg_ret (hw j), rve_power_disable s0)
          else
            let s1 = s0\<lparr>set_reg_calls := set_reg_calls s0 @ [j]\<rparr>
            in if set_reg_ret (hw j) < 0 then (set_reg_ret (hw j), rve_power_disable s1)
               else (set_reg_ret (hw j), s1))"

lemma rve_job_free_todo [simp]: "todo_list (rve_job_free j s) = todo_list s"
  by (simp add: rve_job_free_def)

lemma rve_internal_ctx_signal_todo:
  "rve_internal_ctx_signal k j s = Some s' \<Longrightarrow> todo_list s' = todo_list s"
  by (auto simp: rve_internal_ctx_signal_def Let_def rve_job_cleanup_def
           split: option.splits if_splits)

lemma rve_job_run_todo: "rve_job_run hw j s = (r, s') \<Longrightarrow> todo_list s' = todo_list s"
  by (auto simp: rve_job_run_def rve_power_enable_def rve_power_disable_def Let_def
        split: if_splits)

subsection \<open>Dispatch\<close>

text \<open>
  The code between \<open>spin_lock_irqsave (&scheduler->irq_lock)\<close> and the matching unlock
  is one atomic section; each section is a definition of its own (suffix \<open>_locked\<close>) and
  the functions are composed of them.

  \<open>rve_job_next\<close> has two sections: the first takes the head of the pending list into
  the running slot if the slot is empty and the list is not; the second empties the slot
  after \<open>rve_job_run\<close> failed.
\<close>

definition rve_job_next_locked :: "rve_state \<Rightarrow> nat option \<times> rve_state" where
  "rve_job_next_locked s =
     (if running_job s \<noteq> None \<or> todo_list s = [] then (None, s)
      else (Some (hd (todo_list s)),
            s\<lparr>todo_list := tl (todo_list s),
              job_count := job_count s - 1,
              running_job := Some (hd (todo_list s))\<rparr>))"

definition rve_job_next_failed_locked :: "rve_state \<Rightarrow> rve_state" where
  "rve_job_next_failed_locked s = s\<lparr>running_job := None\<rparr>"

text \<open>
  The \<open>goto next_job\<close> loop. Every round that goes on has removed the head of the
  pending list, which is the termination measure.
\<close>

function rve_job_next :: "rve_consts \<Rightarrow> (nat \<Rightarrow> hw_rets) \<Rightarrow> rve_state \<Rightarrow> rve_state option" where
  "rve_job_next k hw s =
     (case rve_job_next_locked s of
        (None, s0) \<Rightarrow> Some s0
      | (Some j, s1) \<Rightarrow>
          (case jobs s1 j of
             None \<Rightarrow> None
           | Some job \<Rightarrow>
               (case rve_job_run hw j s1 of
                  (r, s2) \<Rightarrow>
                    let s3 = s2\<lparr>jobs := (jobs s2)(j \<mapsto> job\<lparr>job_ret := r\<rparr>)\<rparr>
                    in if r < 0 then
                         (case rve_internal_ctx_signal k j (rve_job_next_failed_locked s3) of
                            None \<Rightarrow> None
                          | Some s4 \<Rightarrow> rve_job_next k hw s4)
                       else Some s3)))"
  by pat_completeness auto
termination
  apply (relation "measure (\<lambda>(k, hw, s). length (todo_list s))")
   apply simp
  apply (clarsimp simp: rve_job_next_locked_def rve_job_next_failed_locked_def
           split: if_splits dest!: rve_internal_ctx_signal_todo)
  apply (drule rve_job_run_todo [OF sym])
  apply (case_tac "todo_list s")
   apply simp_all
  done

declare rve_job_next.simps [simp del]

definition rve_job_finish_and_next ::
  "rve_consts \<Rightarrow> (nat \<Rightarrow> hw_rets) \<Rightarrow> nat \<Rightarrow> int \<Rightarrow> rve_state \<Rightarrow> rve_state option" where
  "rve_job_finish_and_next k hw j r s =
     (case jobs s j of
        None \<Rightarrow> None
      | Some job \<Rightarrow>
          (case rve_internal_ctx_signal k j (s\<lparr>jobs := (jobs s)(j \<mapsto> job\<lparr>job_ret := r\<rparr>)\<rparr>) of
             None \<Rightarrow> None
           | Some s1 \<Rightarrow>
               (case rve_job_next k hw s1 of
                  None \<Rightarrow> None
                | Some s2 \<Rightarrow> Some (rve_power_disable s2))))"

text \<open>
  \<open>rve_job_done\<close> takes the running job out of the slot and dereferences it (and then its
  context) without a NULL test.
\<close>

definition rve_job_done_locked :: "rve_state \<Rightarrow> (nat \<times> rve_state) option" where
  "rve_job_done_locked s =
     (case running_job s of
        None \<Rightarrow> None
      | Some j \<Rightarrow>
          (case jobs s j of
             None \<Rightarrow> None
           | Some job \<Rightarrow> Some (j, s\<lparr>running_job := None\<rparr>)))"

definition rve_job_done ::
  "rve_consts \<Rightarrow> (nat \<Rightarrow> hw_rets) \<Rightarrow> int \<Rightarrow> rve_state \<Rightarrow> rve_state option" where
  "rve_job_done k hw r s =
     (case rve_job_done_locked s of
        None \<Rightarrow> None
      | Some (j, s1) \<Rightarrow>
          (case jobs s1 j of
             None \<Rightarrow> None
           | Some job \<Rightarrow>
               (case ctxs s1 (job_ctx job) of
                  None \<Rightarrow> None
                | Some cx \<Rightarrow> rve_job_finish_and_next k hw j r s1)))"

text \<open>
  The interrupt of rve\_drv.c: \<open>rve_irq_handler\<close> resets the core when the work status
  read from the hardware has an error bit (\<open>err\<close>), then \<open>rve_irq_thread\<close> runs.
\<close>

definition rve_irq_handler :: "bool \<Rightarrow> rve_state \<Rightarrow> rve_state" where
  "rve_irq_handler err s = (if err then s\<lparr>soft_reset_cnt := soft_reset_cnt s + 1\<rparr> else s)"

definition rve_irq_thread ::
  "rve_consts \<Rightarrow> (nat \<Rightarrow> hw_rets) \<Rightarrow> rve_state \<Rightarrow> rve_state option" where
  "rve_irq_thread k hw s =
     (let s1 = s\<lparr>total_int_cnt := total_int_cnt s + 1\<rparr>
      in if running_job s1 = None then Some s1 else rve_job_done k hw 0 s1)"

subsection \<open>Timeout cleaning\<close>

text \<open>\<open>ktime_to_ms\<close> divides nanoseconds by \<open>NSEC_PER_MSEC\<close>, truncating towards zero.\<close>

definition ktime_to_ms :: "int \<Rightarrow> int" where
  "ktime_to_ms t = sgn t * (\<bar>t\<bar> div 1000000)"

text \<open>The locked section returns the job that has to be cleaned, if there is one.\<close>

definition rve_job_timeout_clean_locked ::
  "rve_consts \<Rightarrow> int \<Rightarrow> rve_state \<Rightarrow> (nat option \<times> rve_state) option" where
  "rve_job_timeout_clean_locked k now s =
     (case running_job s of
        None \<Rightarrow> Some (None, s)
      | Some j \<Rightarrow>
          (case jobs s j of
             None \<Rightarrow> None
           | Some job \<Rightarrow>
               if FLAG_RVE_ASYNC \<in> job_flags job \<and>
                  ktime_to_ms (now - job_hw_running_time job) \<ge> RVE_ASYNC_TIMEOUT_DELAY k
               then Some (Some j, s\<lparr>running_job := None\<rparr>)
               else Some (None, s)))"

definition rve_job_timeout_clean :: "rve_consts \<Rightarrow> int \<Rightarrow> rve_state \<Rightarrow> rve_state option" where
  "rve_job_timeout_clean k now s =
     (case rve_job_timeout_clean_locked k now s of
        None \<Rightarrow> None
      | Some (None, s1) \<Rightarrow> Some s1
      | Some (Some j, s1) \<Rightarrow>
          (case rve_internal_ctx_signal k j (s1\<lparr>soft_reset_cnt := soft_reset_cnt s1 + 1\<rparr>) of
             None \<Rightarrow> None
           | Some s2 \<Rightarrow> Some (rve_power_disable s2)))"

subsection \<open>Enqueueing\<close>

text \<open>
  The \<open>list_for_each_entry\<close> loop of \<open>rve_job_schedule\<close>, from the entry \<open>job_pos\<close> that
  heads the remaining list. \<open>list_add (&job->head, &job_pos->head)\<close> links the job as
  the successor of \<open>job_pos\<close>, so the job is the entry the loop visits next. The result
  is the list from \<open>job_pos\<close> on, the flag \<open>first_match\<close> and the job pages.
\<close>

function sched_loop ::
  "nat \<Rightarrow> bool \<Rightarrow> nat list \<Rightarrow> (nat \<rightharpoonup> rve_job) \<Rightarrow> (nat list \<times> bool \<times> (nat \<rightharpoonup> rve_job)) option" where
  "sched_loop j first_match [] h = Some ([], first_match, h)"
| "sched_loop j first_match (p # ps) h =
     (case h j of
        None \<Rightarrow> None
      | Some job \<Rightarrow>
          (case h p of
             None \<Rightarrow> None
           | Some job_pos \<Rightarrow>
               let ins = (job_priority job > job_priority job_pos \<and> \<not> first_match);
                   fm = (first_match \<or> ins);
                   rest = (if ins then j # ps else ps);
                   h1 = (if fm then h(p \<mapsto> job_pos\<lparr>job_priority := job_priority job_pos + 1\<rparr>)
                         else h)
               in (case sched_loop j fm rest h1 of
                     None \<Rightarrow> None
                   | Some (l, f, g) \<Rightarrow> Some (p # l, f, g))))"
  by pat_completeness auto
termination
  by (relation "measure (\<lambda>(j, fm, l, h). 2 * length l + (if fm then 0 else 1))") auto

text \<open>The section of \<open>rve_job_schedule\<close> that holds the lock: the insertion and the count.\<close>

definition rve_job_schedule_locked :: "rve_consts \<Rightarrow> nat \<Rightarrow> rve_state \<Rightarrow> rve_state option" where
  "rve_job_schedule_locked k j s =
     (case jobs s j of
        None \<Rightarrow> None
      | Some job \<Rightarrow>
          (case (if todo_list s = [] \<or> job_priority job = RVE_SCHED_PRIORITY_DEFAULT k
                 then Some (s\<lparr>todo_list := todo_list s @ [j]\<rparr>)
                 else (case sched_loop j False (todo_list s) (jobs s) of
                         None \<Rightarrow> None
                       | Some (l, first_match, h) \<Rightarrow>
                           Some (s\<lparr>jobs := h,
                                  todo_list := (if first_match then l else l @ [j])\<rparr>))) of
             None \<Rightarrow> None
           | Some s1 \<Rightarrow> Some (s1\<lparr>job_count := job_count s1 + 1\<rparr>)))"

text \<open>
  \<open>rve_job_schedule\<close>: timeout cleaning, the insertion under the scheduler lock, then
  \<open>rve_job_next\<close>.
\<close>

definition rve_job_schedule ::
  "rve_consts \<Rightarrow> (nat \<Rightarrow> hw_rets) \<Rightarrow> int \<Rightarrow> nat \<Rightarrow> rve_state \<Rightarrow> rve_state option" where
  "rve_job_schedule k hw now j s =
     (case jobs s j of
        None \<Rightarrow> None
      | Some job \<Rightarrow>
          (case rve_job_timeout_clean k now s of
             None \<Rightarrow> None
           | Some s1 \<Rightarrow>
               (case rve_job_schedule_locked k j s1 of
                  None \<Rightarrow> None
                | Some s2 \<Rightarrow> rve_job_next k hw s2)))"

definition rve_running_job_abort_locked :: "nat \<Rightarrow> rve_state \<Rightarrow> rve_state" where
  "rve_running_job_abort_locked j s =
     (if running_job s = Some j then s\<lparr>running_job := None\<rparr> else s)"

definition rve_running_job_abort :: "nat \<Rightarrow> rve_state \<Rightarrow> rve_state option" where
  "rve_running_job_abort j s =
     (case jobs s j of
        None \<Rightarrow> None
      | Some job \<Rightarrow> Some (rve_job_cleanup j (rve_running_job_abort_locked j s)))"

definition rve_invalid_job_abort :: "nat \<Rightarrow> rve_state \<Rightarrow> rve_state" where
  "rve_invalid_job_abort j s = rve_job_cleanup j s"

subsection \<open>Waiting for a synchronous job\<close>

text \<open>
  Modelled from the spec: \<open>wait_event_interruptible_timeout\<close> is a primitive of the kernel
  that is not part of the sources. The caller blocks until the condition holds or a
  bounded timeout elapses: the result is positive when the condition holds, 0 when the
  timeout elapsed with the condition false, and \<open>-ERESTARTSYS\<close> when a signal ended the
  sleep first.
\<close>

definition wait_event_interruptible_timeout :: "bool \<Rightarrow> bool \<Rightarrow> int" where
  "wait_event_interruptible_timeout cond interrupted =
     (if cond then 1 else if interrupted then - ERESTARTSYS else 0)"

text \<open>
  What happens while a caller sleeps: the hardware delivers an interrupt (the flag says
  whether the work status has an error bit), or another caller enqueues a job it has
  allocated.
\<close>

datatype wait_event = IRQ bool | ENQUEUE nat

fun rve_wait_events ::
  "rve_consts \<Rightarrow> (nat \<Rightarrow> hw_rets) \<Rightarrow> int \<Rightarrow> wait_event list \<Rightarrow> rve_state \<Rightarrow> rve_state option" where
  "rve_wait_events k hw now [] s = Some s"
| "rve_wait_events k hw now (IRQ err # es) s =
     (case rve_irq_thread k hw (rve_irq_handler err s) of
        None \<Rightarrow> None
      | Some s1 \<Rightarrow> rve_wait_events k hw now es s1)"
| "rve_wait_events k hw now (ENQUEUE j # es) s =
     (case rve_job_schedule k hw now j s of
        None \<Rightarrow> None
      | Some s1 \<Rightarrow> rve_wait_events k hw now es s1)"

definition rve_job_wait ::
  "rve_consts \<Rightarrow> (nat \<Rightarrow> hw_rets) \<Rightarrow> int \<Rightarrow> wait_event list \<Rightarrow> bool \<Rightarrow> nat \<Rightarrow> rve_state
     \<Rightarrow> (int \<times> rve_state) option" where
  "rve_job_wait k hw now evs interrupted j s =
     (case rve_wait_events k hw now evs s of
        None \<Rightarrow> None
      | Some s1 \<Rightarrow>
          (case jobs s1 j of
             None \<Rightarrow> None
           | Some job \<Rightarrow>
               let left_time =
                     wait_event_interruptible_timeout (FLAG_RVE_JOB_DONE \<in> job_flags job) interrupted
               in if left_time = 0 then
                    Some (- EBUSY, s1\<lparr>soft_reset_cnt := soft_reset_cnt s1 + 1\<rparr>)
                  else if left_time = - ERESTARTSYS then Some (- ERESTARTSYS, s1)
                  else Some (0, s1)))"

subsection \<open>Committing one batch\<close>

text \<open>
  What the collaborators return during one call of \<open>rve_job_commit\<close>: the clock and the
  page allocator, the hardware, the events and the signal state during the wait, and
  the fence functions of rve\_fence.c.
\<close>

record commit_env =
  env_now :: int
  env_page :: "nat option"
  env_hw :: "nat \<Rightarrow> hw_rets"
  env_events :: "wait_event list"
  env_interrupted :: bool
  env_out_fence_alloc :: "int \<times> nat"
  env_out_fence_fd :: int
  env_in_fence :: "nat option"
  env_in_fence_status :: int
  env_add_callback_ret :: int

text \<open>The branch \<open>ctx->sync_mode == RVE_ASYNC\<close> of \<open>rve_job_commit\<close>.\<close>

definition rve_job_commit_async ::
  "rve_consts \<Rightarrow> commit_env \<Rightarrow> nat \<Rightarrow> nat \<Rightarrow> rve_state \<Rightarrow> (int \<times> rve_state) option" where
  "rve_job_commit_async k e c j s =
     (if \<not> CONFIG_SYNC_FILE k then Some (- EFAULT, s)
      else
        (case jobs s j of
           None \<Rightarrow> None
         | Some job \<Rightarrow>
             (case ctxs s c of
                None \<Rightarrow> None
              | Some cx \<Rightarrow>
                  let job1 = job\<lparr>job_flags := insert FLAG_RVE_ASYNC (job_flags job)\<rparr>;
                      s0 = s\<lparr>jobs := (jobs s)(j \<mapsto> job1)\<rparr>
                  in if out_fence cx = None \<and> fst (env_out_fence_alloc e) \<noteq> 0
                     then Some (fst (env_out_fence_alloc e), rve_job_free j s0)
                     else
                       let f = (case out_fence cx of
                                  Some f0 \<Rightarrow> f0
                                | None \<Rightarrow> snd (env_out_fence_alloc e));
                           cx1 = cx\<lparr>out_fence := Some f, out_fence_fd := env_out_fence_fd e\<rparr>;
                           s1 = s0\<lparr>jobs := (jobs s0)(j \<mapsto> job1\<lparr>job_out_fence := Some f\<rparr>),
                                  ctxs := (ctxs s0)(c \<mapsto> cx1)\<rparr>
                       in if in_fence_fd cx1 > 0 then
                            (case env_in_fence e of
                               None \<Rightarrow> Some (0, rve_job_free j s1)
                             | Some in_fence \<Rightarrow>
                                 if env_in_fence_status e = 1 then
                                   (case rve_job_schedule k (env_hw e) (env_now e) j s1 of
                                      None \<Rightarrow> None
                                    | Some s2 \<Rightarrow> Some (1, s2))
                                 else if env_in_fence_status e = 0 then
                                   (if env_add_callback_ret e < 0
                                    then Some (env_add_callback_ret e, rve_job_free j s1)
                                    else Some (env_add_callback_ret e,
                                           s1\<lparr>fence_waiters := fence_waiters s1 @ [(in_fence, j)]\<rparr>))
                                 else Some (env_in_fence_status e, rve_job_free j s1))
                          else
                            (case rve_job_schedule k (env_hw e) (env_now e) j s1 of
                               None \<Rightarrow> None
                             | Some s2 \<Rightarrow> Some (0, s2)))))"

text \<open>The branch \<open>ctx->sync_mode == RVE_SYNC\<close> of \<open>rve_job_commit\<close>.\<close>

definition rve_job_commit_sync ::
  "rve_consts \<Rightarrow> commit_env \<Rightarrow> nat \<Rightarrow> rve_state \<Rightarrow> (int \<times> rve_state) option" where
  "rve_job_commit_sync k e j s =
     (case rve_job_schedule k (env_hw e) (env_now e) j s of
        None \<Rightarrow> None
      | Some s1 \<Rightarrow>
          (case jobs s1 j of
             None \<Rightarrow> None
           | Some job \<Rightarrow>
               if job_ret job < 0 then
                 (case rve_running_job_abort j s1 of
                    None \<Rightarrow> None
                  | Some s2 \<Rightarrow> Some (job_ret job, s2))
               else
                 (case rve_job_wait k (env_hw e) (env_now e) (env_events e) (env_interrupted e) j s1 of
                    None \<Rightarrow> None
                  | Some (r, s2) \<Rightarrow>
                      if r < 0 then
                        (case rve_running_job_abort j s2 of
                           None \<Rightarrow> None
                         | Some s3 \<Rightarrow> Some (r, s3))
                      else Some (r, rve_job_cleanup j s2))))"

definition rve_job_commit ::
  "rve_consts \<Rightarrow> commit_env \<Rightarrow> nat \<Rightarrow> rve_state \<Rightarrow> (int \<times> rve_state) option" where
  "rve_job_commit k e c s =
     (case ctxs s c of
        None \<Rightarrow> None
      | Some cx0 \<Rightarrow>
          let s0 = s\<lparr>ctxs := (ctxs s)(c \<mapsto> cx0\<lparr>ctx_sync_mode := RVE_SYNC\<rparr>)\<rparr>
          in (case rve_job_alloc k (env_now e) (env_page e) c s0 of
                None \<Rightarrow> None
              | Some (None, s1) \<Rightarrow> Some (- ENOMEM, s1)
              | Some (Some j, s1) \<Rightarrow>
                  (case ctxs s1 c of
                     None \<Rightarrow> None
                   | Some cx \<Rightarrow>
                       if ctx_sync_mode cx = RVE_ASYNC then rve_job_commit_async k e c j s1
                       else if ctx_sync_mode cx = RVE_SYNC then rve_job_commit_sync k e j s1
                       else Some (0, s1))))"

subsection \<open>Configuring and cancelling a context\<close>





text \<open>
  The \<open>list_for_each_entry_safe\<close> loop of \<open>rve_internal_ctx_kref_release\<close>: the pending
  list without the jobs of context \<open>c\<close>, and how many were unlinked.
\<close>

fun cancel_scan :: "nat \<Rightarrow> rve_state \<Rightarrow> nat list \<Rightarrow> (nat list \<times> int) option" where
  "cancel_scan c s [] = Some ([], 0)"
| "cancel_scan c s (p # ps) =
     (case jobs s p of
        None \<Rightarrow> None
      | Some job_pos \<Rightarrow>
          (case ctxs s (job_ctx job_pos) of
             None \<Rightarrow> None
           | Some cxp \<Rightarrow>
               (case cancel_scan c s ps of
                  None \<Rightarrow> None
                | Some (l, n) \<Rightarrow>
                    if job_ctx job_pos = c then Some (l, n + 1) else Some (p # l, n))))"

text \<open>The locked section of the release; it returns the running job to reset, if any.\<close>

definition rve_internal_ctx_kref_release_locked ::
  "nat \<Rightarrow> rve_state \<Rightarrow> (nat option \<times> rve_state) option" where
  "rve_internal_ctx_kref_release_locked c s =
     (case cancel_scan c s (todo_list s) of
        None \<Rightarrow> None
      | Some (l, n) \<Rightarrow>
          let s1 = s\<lparr>todo_list := l, job_count := job_count s - n\<rparr>
          in (case running_job s1 of
                None \<Rightarrow> Some (None, s1)
              | Some j \<Rightarrow>
                  (case jobs s1 j of
                     None \<Rightarrow> None
                   | Some job \<Rightarrow>
                       (case ctxs s1 (job_ctx job) of
                          None \<Rightarrow> None
                        | Some cxj \<Rightarrow>
                            if job_ctx job = c then Some (Some j, s1\<lparr>running_job := None\<rparr>)
                            else Some (None, s1)))))"




subsection \<open>The load timer\<close>



section \<open>Vocabulary of the properties\<close>





text \<open>
  \<open>inflate A h\<close> adds one to the priority of every job of \<open>A\<close>; \<open>lower_prio h p x\<close>
  holds when the job at \<open>x\<close> has a priority strictly below \<open>p\<close>.
\<close>

definition bump :: "rve_job \<Rightarrow> rve_job" where
  "bump jb = jb\<lparr>job_priority := job_priority jb + 1\<rparr>"

definition inflate :: "nat set \<Rightarrow> (nat \<rightharpoonup> rve_job) \<Rightarrow> (nat \<rightharpoonup> rve_job)" where
  "inflate A h = (\<lambda>x. if x \<in> A then map_option bump (h x) else h x)"

definition lower_prio :: "(nat \<rightharpoonup> rve_job) \<Rightarrow> int \<Rightarrow> nat \<Rightarrow> bool" where
  "lower_prio h p x = (case h x of None \<Rightarrow> False | Some jb \<Rightarrow> job_priority jb < p)"

text \<open>A sequence of enqueue operations, and the pending list with its priorities.\<close>

fun rve_job_schedule_seq ::
  "rve_consts \<Rightarrow> (nat \<Rightarrow> hw_rets) \<Rightarrow> int \<Rightarrow> nat list \<Rightarrow> rve_state \<Rightarrow> rve_state option" where
  "rve_job_schedule_seq k hw now [] s = Some s"
| "rve_job_schedule_seq k hw now (j # js) s =
     (case rve_job_schedule k hw now j s of
        None \<Rightarrow> None
      | Some s1 \<Rightarrow> rve_job_schedule_seq k hw now js s1)"

definition queue_view :: "rve_state \<Rightarrow> (nat \<times> int option) list" where
  "queue_view s = map (\<lambda>j. (j, map_option job_priority (jobs s j))) (todo_list s)"





text \<open>
  What a test observes of the result of a commit for context \<open>c\<close> and job \<open>j\<close>: the
  return value, the pending list, the running slot, the number of core resets, the
  finished count and running flag of the context, and whether the job page is still
  allocated. \<open>fence_view\<close> shows the mode and the output fence of the context, the fences
  signalled and the number of resets.
\<close>

definition observe ::
  "nat \<Rightarrow> nat \<Rightarrow> (int \<times> rve_state) option
     \<Rightarrow> (int \<times> nat list \<times> nat option \<times> nat \<times> (int \<times> bool) option \<times> bool) option" where
  "observe c j res =
     map_option (\<lambda>(r, s). (r, todo_list s, running_job s, soft_reset_cnt s,
        map_option (\<lambda>cx. (finished_job_count cx, is_running cx)) (ctxs s c),
        jobs s j \<noteq> None)) res"


text \<open>
  The steps that callers and the interrupt thread take on the scheduler: each atomic
  section of rve\_job.c that holds \<open>irq_lock\<close>, and the steps between the sections that
  run unlocked (signalling a context, freeing a job page, storing a job's result).
  Concurrent execution is any sequence of these steps.
\<close>

datatype sched_section =
    NEXT_TAKE
  | NEXT_FAILED
  | JOB_DONE
  | TIMEOUT_CLEAN int
  | SCHEDULE nat
  | ABORT nat
  | CANCEL nat
  | UNLOCKED_SIGNAL nat
  | UNLOCKED_FREE nat
  | UNLOCKED_RET nat int

fun section_step :: "rve_consts \<Rightarrow> sched_section \<Rightarrow> rve_state \<Rightarrow> rve_state option" where
  "section_step k NEXT_TAKE s = Some (snd (rve_job_next_locked s))"
| "section_step k NEXT_FAILED s = Some (rve_job_next_failed_locked s)"
| "section_step k JOB_DONE s = map_option snd (rve_job_done_locked s)"
| "section_step k (TIMEOUT_CLEAN now) s = map_option snd (rve_job_timeout_clean_locked k now s)"
| "section_step k (SCHEDULE j) s = rve_job_schedule_locked k j s"
| "section_step k (ABORT j) s = Some (rve_running_job_abort_locked j s)"
| "section_step k (CANCEL c) s = map_option snd (rve_internal_ctx_kref_release_locked c s)"
| "section_step k (UNLOCKED_SIGNAL j) s = rve_internal_ctx_signal k j s"
| "section_step k (UNLOCKED_FREE j) s = Some (rve_job_cleanup j s)"
| "section_step k (UNLOCKED_RET j r) s =
     (case jobs s j of
        None \<Rightarrow> None
      | Some job \<Rightarrow> Some (s\<lparr>jobs := (jobs s)(j \<mapsto> job\<lparr>job_ret := r\<rparr>)\<rparr>))"

text \<open>
  \<open>slot_trace\<close> lists the content of the running slot before and after every step of a
  sequence; \<open>exclusive\<close> says that the slot never passes from one job to another
  without having been empty in between.
\<close>

fun slot_trace :: "rve_consts \<Rightarrow> sched_section list \<Rightarrow> rve_state \<Rightarrow> nat option list" where
  "slot_trace k [] s = [running_job s]"
| "slot_trace k (ev # evs) s =
     running_job s #
       (case section_step k ev s of None \<Rightarrow> [] | Some s' \<Rightarrow> slot_trace k evs s')"

fun exclusive :: "nat option list \<Rightarrow> bool" where
  "exclusive (a # b # xs) = ((b = None \<or> a = None \<or> a = b) \<and> exclusive (b # xs))"
| "exclusive xs = True"

section \<open>Basic facts\<close>




lemma signal_frame:
  assumes "rve_internal_ctx_signal k j s = Some s'"
  shows "todo_list s' = todo_list s" "running_job s' = running_job s" "job_count s' = job_count s"
    "\<And>j'. j' \<noteq> j \<Longrightarrow> jobs s' j' = jobs s j'"
    "\<And>c. (ctxs s' c = None) = (ctxs s c = None)"
  using assms
  by (auto simp: rve_internal_ctx_signal_def Let_def rve_job_cleanup_def rve_job_free_def
           split: option.splits if_splits)


lemma rve_job_next_occupied: "running_job s = Some r \<Longrightarrow> rve_job_next k hw s = Some s"
  by (simp add: rve_job_next.simps rve_job_next_locked_def)





section \<open>Frame facts about contexts\<close>

lemma case_option_SomeD:
  "(case x of None \<Rightarrow> None | Some y \<Rightarrow> f y) = Some z \<Longrightarrow> \<exists>y. x = Some y \<and> f y = Some z"
  by (cases x) auto























section \<open>Committing a context\<close>





section \<open>The calls of the driver\<close>







section \<open>Frame facts about job flags and logs\<close>























section \<open>Invariants of the driver calls\<close>












section \<open>Example states\<close>

text \<open>
  \<open>rve_init\<close> is the state after \<open>init_scheduler\<close> and \<open>rve_ctx_manager_init\<close>; the values
  of \<open>k_ex\<close> stand for those of the missing header.
\<close>

definition rve_init :: rve_state where
  "rve_init = \<lparr>jobs = Map.empty, ctxs = Map.empty, ctx_count = 0, todo_list = [], job_count = 0,
     running_job = None, total_int_cnt = 0, pd_refcount = 0, soft_reset_cnt = 0,
     signaled_fences = [], job_done_wq_wakeups = 0, fence_waiters = [],
     copied_from_user = [], copied_to_user = [], allocated_pages = [], set_reg_calls = []\<rparr>"

definition k_ex :: rve_consts where
  "k_ex = \<lparr>RVE_SCHED_PRIORITY_MAX = 2, RVE_SCHED_PRIORITY_DEFAULT = 0,
     RVE_ASYNC_TIMEOUT_DELAY = 500, CONFIG_SYNC_FILE = True\<rparr>"

definition ctx_ex :: "int \<Rightarrow> rve_internal_ctx_t" where
  "ctx_ex p = \<lparr>ctx_priority = p, ctx_sync_mode = RVE_SYNC, cmd_num = 1, finished_job_count = 0,
     running_job_count = 0, is_running = True, ctx_regcmd_data = 0, out_fence = None,
     out_fence_fd = 0, in_fence_fd = 0, ctx_pid = 0\<rparr>"

definition job_ex :: "nat \<Rightarrow> int \<Rightarrow> rve_job" where
  "job_ex c p = \<lparr>job_ctx = c, job_priority = p, job_flags = {}, job_ret = 0, job_timestamp = 0,
     job_hw_running_time = 0, job_regcmd_data = 0, job_out_fence = None\<rparr>"

definition hw_ok :: hw_rets where
  "hw_ok = \<lparr>clk_ret = 0, init_reg_ret = 0, set_reg_ret = 0\<rparr>"

definition hw_ex :: "nat \<Rightarrow> hw_rets" where
  "hw_ex j = (if j = 10 then hw_ok\<lparr>init_reg_ret := - 14\<rparr> else hw_ok)"

definition s_two_queued :: rve_state where
  "s_two_queued = rve_init\<lparr>ctxs := [1 \<mapsto> ctx_ex 0, 2 \<mapsto> ctx_ex 0],
     jobs := [10 \<mapsto> job_ex 1 0, 11 \<mapsto> job_ex 2 0], todo_list := [10, 11], job_count := 2\<rparr>"

definition hw_ok_all :: "nat \<Rightarrow> hw_rets" where
  "hw_ok_all j = hw_ok"

definition s_busy :: rve_state where
  "s_busy = rve_init\<lparr>ctxs := [1 \<mapsto> ctx_ex 0, 2 \<mapsto> ctx_ex 1, 3 \<mapsto> ctx_ex 2],
     jobs := [12 \<mapsto> job_ex 1 0, 10 \<mapsto> job_ex 2 1, 11 \<mapsto> job_ex 3 2],
     running_job := Some 12, todo_list := [10], job_count := 1\<rparr>"

definition s_busy4 :: rve_state where
  "s_busy4 = rve_init\<lparr>ctxs := [1 \<mapsto> ctx_ex 0, 2 \<mapsto> ctx_ex 2, 3 \<mapsto> ctx_ex 0, 4 \<mapsto> ctx_ex 1, 5 \<mapsto> ctx_ex 2],
     jobs := [12 \<mapsto> job_ex 1 0, 20 \<mapsto> job_ex 2 2, 21 \<mapsto> job_ex 3 0, 22 \<mapsto> job_ex 4 1,
              23 \<mapsto> job_ex 5 2],
     running_job := Some 12\<rparr>"



definition e_done :: commit_env where
  "e_done = \<lparr>env_now = 0, env_page = Some 50, env_hw = hw_ok_all, env_events = [IRQ False],
     env_interrupted = False, env_out_fence_alloc = (0, 7), env_out_fence_fd = 5,
     env_in_fence = None, env_in_fence_status = 0, env_add_callback_ret = 0\<rparr>"

definition s_committed :: rve_state where
  "s_committed = rve_init\<lparr>ctxs := [1 \<mapsto> ctx_ex 0, 2 \<mapsto> ctx_ex 0], jobs := [51 \<mapsto> job_ex 2 0]\<rparr>"










text \<open>The definitions that evaluate a commit on a concrete state.\<close>

lemmas rve_eval =
  rve_job_commit_def rve_job_commit_sync_def rve_job_alloc_def rve_job_schedule_def
  rve_job_schedule_locked_def rve_job_timeout_clean_def rve_job_timeout_clean_locked_def
  rve_job_next.simps rve_job_next_locked_def rve_job_next_failed_locked_def rve_job_run_def
  rve_power_enable_def rve_power_disable_def rve_job_wait_def wait_event_interruptible_timeout_def
  rve_running_job_abort_def rve_running_job_abort_locked_def rve_job_cleanup_def rve_job_free_def
  rve_irq_handler_def rve_irq_thread_def rve_job_done_def rve_job_done_locked_def
  rve_job_finish_and_next_def rve_internal_ctx_signal_def
  rve_init_def ctx_ex_def job_ex_def k_ex_def hw_ok_all_def hw_ok_def
  EBUSY_def ERESTARTSYS_def Let_def
section \<open>Properties of dispatch\<close>

text \<open>
  Claim C5. Calling \<open>rve_job_next\<close> when the running slot is occupied, or when the
  pending list is empty, returns the state it was given: the pending list, the counter
  \<open>job_count\<close> and the running slot (and everything else) are unchanged, so a further
  call is again a no-op.
\<close>

theorem rve_job_next_noop:
  "running_job s \<noteq> None \<or> todo_list s = [] \<Longrightarrow> rve_job_next k hw s = Some s"
  by (simp add: rve_job_next.simps rve_job_next_locked_def)


theorem rve_job_next_noop_witness:
  "rve_job_next k_ex hw_ex (s_two_queued\<lparr>running_job := Some 12\<rparr>) = Some (s_two_queued\<lparr>running_job := Some 12\<rparr>)"
  using rve_job_next_noop [of "s_two_queued\<lparr>running_job := Some 12\<rparr>" k_ex hw_ex]
  by (simp add: s_two_queued_def rve_init_def)






section \<open>Properties of the priority insertion\<close>

lemma inflate_upd:
  "h p = Some jp \<Longrightarrow> p \<notin> A \<Longrightarrow> inflate A (h(p \<mapsto> bump jp)) = inflate (insert p A) h"
  by (rule ext) (simp add: inflate_def)

text \<open>
  Once \<open>first_match\<close> is set the loop increments every entry it still visits. Before
  that it walks to the first entry of strictly lower priority, links the job behind it
  and goes on from the job itself.
\<close>

lemma sched_loop_inflating:
  assumes "distinct xs" "\<forall>x\<in>set xs. h x \<noteq> None" "h j \<noteq> None"
  shows "sched_loop j True xs h = Some (xs, True, inflate (set xs) h)"
  using assms
proof (induction xs arbitrary: h)
  case Nil
  have "inflate {} h = h" by (rule ext) (simp add: inflate_def)
  then show ?case by simp
next
  case (Cons p ps)
  from Cons.prems obtain job jp where j: "h j = Some job" and p: "h p = Some jp" by auto
  let ?h1 = "h(p \<mapsto> bump jp)"
  have "sched_loop j True ps ?h1 = Some (ps, True, inflate (set ps) ?h1)"
    using Cons.prems by (intro Cons.IH) auto
  moreover have "inflate (set ps) ?h1 = inflate (set (p # ps)) h"
    using inflate_upd [of h p jp "set ps"] p Cons.prems by simp
  ultimately show ?case using j p by (simp add: bump_def)
qed

lemma sched_loop_scanning:
  assumes "distinct xs" "j \<notin> set xs" "\<forall>x\<in>set xs. h x \<noteq> None" "h j = Some job"
  shows "sched_loop j False xs h =
           (case dropWhile (\<lambda>x. \<not> lower_prio h (job_priority job) x) xs of
              [] \<Rightarrow> Some (xs, False, h)
            | z # zs \<Rightarrow>
                Some (takeWhile (\<lambda>x. \<not> lower_prio h (job_priority job) x) xs @ z # j # zs, True,
                      inflate (insert z (insert j (set zs))) h))"
  using assms
proof (induction xs)
  case Nil
  then show ?case by simp
next
  case (Cons p ps)
  from Cons.prems obtain jp where p: "h p = Some jp" by auto
  show ?case
  proof (cases "lower_prio h (job_priority job) p")
    case True
    then have lt: "job_priority jp < job_priority job" using p by (simp add: lower_prio_def)
    let ?h1 = "h(p \<mapsto> bump jp)"
    have "sched_loop j True (j # ps) ?h1 = Some (j # ps, True, inflate (set (j # ps)) ?h1)"
      using Cons.prems by (intro sched_loop_inflating) auto
    moreover have "inflate (set (j # ps)) ?h1 = inflate (insert p (insert j (set ps))) h"
      using inflate_upd [of h p jp "set (j # ps)"] p Cons.prems by auto
    ultimately show ?thesis using True lt p Cons.prems(4) by (simp add: bump_def)
  next
    case False
    then have ge: "\<not> job_priority jp < job_priority job" using p by (simp add: lower_prio_def)
    have ih: "sched_loop j False ps h =
           (case dropWhile (\<lambda>x. \<not> lower_prio h (job_priority job) x) ps of
              [] \<Rightarrow> Some (ps, False, h)
            | z # zs \<Rightarrow>
                Some (takeWhile (\<lambda>x. \<not> lower_prio h (job_priority job) x) ps @ z # j # zs, True,
                      inflate (insert z (insert j (set zs))) h))"
      using Cons.prems by (intro Cons.IH) auto
    have d: "dropWhile (\<lambda>x. \<not> lower_prio h (job_priority job) x) (p # ps) =
             dropWhile (\<lambda>x. \<not> lower_prio h (job_priority job) x) ps"
      using False by simp
    have t: "takeWhile (\<lambda>x. \<not> lower_prio h (job_priority job) x) (p # ps) =
             p # takeWhile (\<lambda>x. \<not> lower_prio h (job_priority job) x) ps"
      using False by simp
    have step: "sched_loop j False (p # ps) h =
        (case sched_loop j False ps h of None \<Rightarrow> None | Some (l, f, g) \<Rightarrow> Some (p # l, f, g))"
      using ge p Cons.prems(4) by simp
    show ?thesis
      unfolding step d t ih
      by (cases "dropWhile (\<lambda>x. \<not> lower_prio h (job_priority job) x) ps")
         (simp_all del: dropWhile_eq_Nil_conv)
  qed
qed

text \<open>
  Claim C2, evaluated on the code. The running slot is occupied, the pending list holds
  job 10 of priority 1, the default priority is 0, and job 11 of priority 2 is enqueued.
  The claim has job 11 placed before job 10 and only job 10 incremented:
  \<open>[(11, 2), (10, 2)]\<close>. \<open>rve_job_schedule\<close> links job 11 behind job 10 and increments
  both.
\<close>

theorem rve_job_schedule_inserts_after:
  "map_option queue_view (rve_job_schedule k_ex hw_ok_all 0 11 s_busy) =
     Some [(10, Some 2), (11, Some 3)]"
  by (simp add: rve_job_schedule_def rve_job_schedule_locked_def rve_job_timeout_clean_def
        rve_job_timeout_clean_locked_def s_busy_def rve_init_def
        job_ex_def k_ex_def rve_job_next_occupied queue_view_def)

text \<open>
  Claim C8, evaluated on the code. The maximum is 2 and the default priority 0. Behind a
  running job four jobs are enqueued whose priorities \<open>rve_job_alloc\<close> has clamped to
  2, 0, 1 and 2. The third is linked behind job 21 and then incremented itself, to 2; the
  fourth is linked behind job 21 too, and the loop increments it and job 22 to 3. The
  claim has every queued priority at most 2.
\<close>

theorem rve_job_schedule_priority_exceeds_max:
  "RVE_SCHED_PRIORITY_MAX k_ex = 2 \<and>
   map (\<lambda>j. map_option job_priority (jobs s_busy4 j)) [20, 21, 22, 23] = [Some 2, Some 0, Some 1, Some 2] \<and>
   map_option queue_view (rve_job_schedule_seq k_ex hw_ok_all 0 [20, 21, 22] s_busy4) =
     Some [(20, Some 2), (21, Some 1), (22, Some 2)] \<and>
   map_option queue_view (rve_job_schedule_seq k_ex hw_ok_all 0 [20, 21, 22, 23] s_busy4) =
     Some [(20, Some 2), (21, Some 2), (23, Some 3), (22, Some 3)]"
  by (simp add: rve_job_schedule_def rve_job_schedule_locked_def rve_job_timeout_clean_def
        rve_job_timeout_clean_locked_def s_busy4_def rve_init_def
        job_ex_def k_ex_def rve_job_next_occupied queue_view_def)
section \<open>Completion accounting\<close>









section \<open>Timeout cleaning of asynchronous jobs\<close>



section \<open>Committing one batch: the synchronous wait\<close>

text \<open>
  Claim C6, evaluated on the code. Context 1 is committed on an idle scheduler; its job 50
  is started on the hardware; while the caller waits another caller enqueues job 51; no
  interrupt arrives and the wait times out. The call resets the core and returns
  \<open>-EBUSY\<close> (-16), and \<open>rve_running_job_abort\<close> empties the slot and frees job 50. The
  finish path is not taken: the context still has finished count 0 and is still marked
  running, and job 51 stays in the pending list with the slot empty.
\<close>

theorem rve_job_wait_timeout_skips_finish:
  "observe 1 50 (rve_job_commit k_ex (e_done\<lparr>env_events := [ENQUEUE 51]\<rparr>) 1 s_committed) =
     Some (- 16, [51], None, 1, Some (0, True), False)"
  by (simp add: observe_def e_done_def s_committed_def rve_eval)








section \<open>The batch count of a configured context\<close>












section \<open>The running slot under interleaving\<close>

lemma rve_job_schedule_locked_slot:
  "rve_job_schedule_locked k j s = Some s' \<Longrightarrow> running_job s' = running_job s"
  by (auto simp: rve_job_schedule_locked_def split: option.splits if_splits)

lemma section_step_slot:
  assumes "section_step k ev s = Some s'" "running_job s' = Some j"
  shows "running_job s = Some j \<or>
         (running_job s = None \<and> ev = NEXT_TAKE \<and> todo_list s = j # todo_list s')"
proof (cases ev)
  case NEXT_TAKE
  with assms show ?thesis
    by (cases "todo_list s") (auto simp: rve_job_next_locked_def split: if_splits)
next
  case NEXT_FAILED
  with assms show ?thesis by (auto simp: rve_job_next_failed_locked_def)
next
  case JOB_DONE
  with assms show ?thesis by (auto simp: rve_job_done_locked_def split: option.splits)
next
  case (TIMEOUT_CLEAN now)
  with assms show ?thesis
    by (auto simp: rve_job_timeout_clean_locked_def split: option.splits if_splits)
next
  case (SCHEDULE x)
  with assms show ?thesis by (auto dest: rve_job_schedule_locked_slot)
next
  case (ABORT x)
  with assms show ?thesis by (auto simp: rve_running_job_abort_locked_def split: if_splits)
next
  case (CANCEL c)
  with assms show ?thesis
    by (auto simp: rve_internal_ctx_kref_release_locked_def Let_def split: option.splits if_splits)
next
  case (UNLOCKED_SIGNAL x)
  with assms show ?thesis by (auto dest: signal_frame(2))
next
  case (UNLOCKED_FREE x)
  with assms show ?thesis by (auto simp: rve_job_cleanup_def rve_job_free_def)
next
  case (UNLOCKED_RET x r)
  with assms show ?thesis by (auto split: option.splits)
qed

lemma slot_trace_hd: "\<exists>xs. slot_trace k evs s = running_job s # xs"
  by (cases evs) auto

lemma slot_trace_exclusive: "exclusive (slot_trace k evs s)"
proof (induction evs arbitrary: s)
  case Nil
  show ?case by simp
next
  case (Cons ev evs)
  show ?case
  proof (cases "section_step k ev s")
    case None
    then show ?thesis by simp
  next
    case (Some s')
    from slot_trace_hd [of k evs s'] obtain xs where
      t: "slot_trace k evs s' = running_job s' # xs" by blast
    have "running_job s' = None \<or> running_job s = None \<or> running_job s = running_job s'"
    proof (cases "running_job s'")
      case None
      then show ?thesis by simp
    next
      case (Some j)
      from section_step_slot [OF \<open>section_step k ev s = Some s'\<close> Some] Some
      show ?thesis by auto
    qed
    with Cons.IH [of s'] Some t show ?thesis by simp
  qed
qed

text \<open>
  Claim C1. The running slot is the single pointer \<open>scheduler->running_job\<close>, so it holds
  at most one job. Along every interleaving of the steps, from every state, the slot
  never changes from one job to another directly. A step that puts a job into the slot
  is the first section of \<open>rve_job_next\<close>, it found the slot empty under the lock and the
  job is the head of the pending list. The completion path (\<open>rve_job_done\<close>), the failed
  start in \<open>rve_job_next\<close> and the abort of the running job leave the slot empty.
\<close>

theorem running_slot_exclusive:
  "exclusive (slot_trace k evs s) \<and>
   (\<forall>ev s' j. section_step k ev s = Some s' \<and> running_job s' = Some j \<and>
       running_job s \<noteq> Some j \<longrightarrow>
       ev = NEXT_TAKE \<and> running_job s = None \<and> todo_list s = j # todo_list s') \<and>
   (\<forall>s'. section_step k JOB_DONE s = Some s' \<longrightarrow> running_job s' = None) \<and>
   (\<forall>s'. section_step k NEXT_FAILED s = Some s' \<longrightarrow> running_job s' = None) \<and>
   (\<forall>j s'. section_step k (ABORT j) s = Some s' \<and> running_job s = Some j \<longrightarrow>
       running_job s' = None)"
proof (intro conjI allI impI)
  show "exclusive (slot_trace k evs s)" by (rule slot_trace_exclusive)
next
  fix ev s' j
  assume a: "section_step k ev s = Some s' \<and> running_job s' = Some j \<and> running_job s \<noteq> Some j"
  then have "running_job s = Some j \<or>
         (running_job s = None \<and> ev = NEXT_TAKE \<and> todo_list s = j # todo_list s')"
    using section_step_slot [of k ev s s' j] by simp
  with a show "ev = NEXT_TAKE" "running_job s = None" "todo_list s = j # todo_list s'"
    by simp_all
next
  fix s' assume "section_step k JOB_DONE s = Some s'"
  then show "running_job s' = None"
    by (auto simp: rve_job_done_locked_def split: option.splits)
next
  fix s' assume "section_step k NEXT_FAILED s = Some s'"
  then show "running_job s' = None" by (auto simp: rve_job_next_failed_locked_def)
next
  fix j s' assume "section_step k (ABORT j) s = Some s' \<and> running_job s = Some j"
  then show "running_job s' = None" by (auto simp: rve_running_job_abort_locked_def)
qed

theorem running_slot_exclusive_witness:
  "slot_trace k_ex [NEXT_TAKE, SCHEDULE 12, NEXT_TAKE, JOB_DONE, UNLOCKED_SIGNAL 10, NEXT_TAKE,
      CANCEL 2, NEXT_TAKE]
     (s_two_queued\<lparr>jobs := (jobs s_two_queued)(12 \<mapsto> job_ex 1 2)\<rparr>) =
     [None, Some 10, Some 10, Some 10, None, None, Some 11, None, Some 12] \<and>
   exclusive [None, Some 10, Some 10, Some 10, None, None, Some 11, None, Some 12] \<and>
   section_step k_ex NEXT_TAKE s_two_queued = Some (s_two_queued\<lparr>todo_list := [11], job_count := 1,
     running_job := Some 10\<rparr>) \<and>
   todo_list s_two_queued = [10, 11]"
proof -
  let ?evs = "[NEXT_TAKE, SCHEDULE 12, NEXT_TAKE, JOB_DONE, UNLOCKED_SIGNAL 10, NEXT_TAKE,
      CANCEL 2, NEXT_TAKE]"
  let ?s = "s_two_queued\<lparr>jobs := (jobs s_two_queued)(12 \<mapsto> job_ex 1 2)\<rparr>"
  have t: "slot_trace k_ex ?evs ?s =
     [None, Some 10, Some 10, Some 10, None, None, Some 11, None, Some 12]"
    by (simp add: s_two_queued_def rve_init_def job_ex_def ctx_ex_def k_ex_def
          rve_job_next_locked_def rve_job_schedule_locked_def rve_job_done_locked_def
          rve_internal_ctx_signal_def rve_internal_ctx_kref_release_locked_def Let_def)
  have st: "section_step k_ex NEXT_TAKE s_two_queued = Some (s_two_queued\<lparr>todo_list := [11], job_count := 1,
     running_job := Some 10\<rparr>)"
    by (simp add: s_two_queued_def rve_init_def rve_job_next_locked_def)
  note T = running_slot_exclusive [of k_ex ?evs ?s]
  from T [THEN conjunct1] t
  have ex: "exclusive [None, Some 10, Some 10, Some 10, None, None, Some 11, None, Some 12]"
    by simp
  have "section_step k_ex NEXT_TAKE s_two_queued =
          Some (s_two_queued\<lparr>todo_list := [11], job_count := 1, running_job := Some 10\<rparr>) \<and>
        running_job (s_two_queued\<lparr>todo_list := [11], job_count := 1, running_job := Some 10\<rparr>) = Some 10 \<and>
        running_job s_two_queued \<noteq> Some 10"
    using st by (simp add: s_two_queued_def rve_init_def)
  from running_slot_exclusive [of k_ex "[]" s_two_queued, THEN conjunct2, THEN conjunct1,
      rule_format, OF this]
  have "todo_list s_two_queued = [10, 11]" by simp
  with t ex st show ?thesis by (intro conjI)
qed

end
